theory Spec2Isabelle
  imports Main
begin

section \<open>Values of the program\<close>

text \<open>
  A Go \<open>error\<close> result is an \<open>error option\<close>: \<open>None\<close> is \<open>nil\<close>.
  \<open>Wrap err msg\<close> is \<open>errors.Wrap(err, msg)\<close>. A Go function returning \<open>(T, error)\<close>
  returns a pair, since the source returns a value of \<open>T\<close> next to a non-nil error too
  (\<open>return 0, errors.Wrap(...)\<close>, \<open>return time.Unix(0, 0), err\<close>).
\<close>

datatype error =
    ErrNotExist
  | ErrExist
  | ErrInvalid
  | ErrClosed
  | ErrOther string
  | Wrap error string

text \<open>
  The struct \<open>Event\<close>. The property map \<open>map[string]interface{}\<close> is carried around and
  never inspected by the package, so its type is a parameter.
\<close>

record 'p Event =
  Event :: string
  Properties :: 'p

text \<open>The message \<open>segment.Track\<close> as \<open>Flush\<close> fills it.\<close>

record 'p segment_Track =
  Track_Event :: string
  Track_UserId :: string
  Track_Properties :: 'p

text \<open>
  The object behind \<open>*os.File\<close>: the file it was opened on and whether it has been closed.
  A nil pointer is \<open>None\<close>.
\<close>

record os_File =
  inode :: nat
  closed :: bool

text \<open>
  The object behind \<open>*json.Encoder\<close>. \<open>json.NewEncoder(f)\<close> keeps the pointer \<open>f\<close>, the
  same object as \<open>a.eventsFile\<close>, so the encoder writes through \<open>eventsFile\<close>; its own state
  is the first error of a write, which it keeps and returns from then on.
\<close>

record json_Encoder =
  enc_err :: "error option"

definition NewEncoder :: json_Encoder where
  "NewEncoder = \<lparr>enc_err = None\<rparr>"

text \<open>
  The struct \<open>Analytics\<close>. The embedded \<open>Config\<close> and the path \<open>root\<close> are left out: the
  logger has no effect on results, the write key only selects the remote account, and the
  directory named by \<open>root\<close> is the one the \<open>world\<close> below describes.
\<close>

record Analytics =
  userID :: string
  eventsFile :: "os_File option"
  events :: "json_Encoder option"

section \<open>The host: state directory, clock, codec and remote client\<close>

text \<open>
  The state directory \<open>~/<dir>\<close> with its four files, and the messages handed to the
  Segment client so far.

  \<^item> \<open>parent_dir\<close>: the directory that contains \<open>~/<dir>\<close> exists (so \<open>Mkdir\<close> can succeed);
  \<^item> \<open>root_dir\<close>: \<open>~/<dir>\<close> exists; the files below exist only inside it;
  \<^item> \<open>disable_file\<close>: \<open>~/<dir>/disable\<close> exists;
  \<^item> \<open>id_file\<close>: content of \<open>~/<dir>/id\<close>;
  \<^item> \<open>last_flush_file\<close>: modification time of \<open>~/<dir>/last_flush\<close> (nanoseconds since
    the epoch; its content is always \<open>":)"\<close>);
  \<^item> \<open>events_link\<close>: the file the name \<open>~/<dir>/events\<close> is linked to. An open handle
    refers to the file, not to the name, so files are kept in a store \<open>inodes\<close>, each one
    the sequence of records written to it, one per \<open>Encode\<close>;
  \<^item> \<open>submitted\<close>: every message passed to \<open>client.Track\<close>, oldest first.
\<close>

record 'p world =
  parent_dir :: bool
  root_dir :: bool
  disable_file :: bool
  id_file :: "string option"
  last_flush_file :: "int option"
  events_link :: "nat option"
  inodes :: "nat \<Rightarrow> string list"
  next_inode :: nat
  submitted :: "'p segment_Track list"

text \<open>
  What the package takes from outside the repository, as parameters:
  the clock (\<open>time.Now()\<close>), \<open>uuid.GenerateUUID()\<close>, the JSON codec of \<open>encoding/json\<close>
  for one \<open>Event\<close> (\<open>Marshal\<close> for \<open>Encoder.Encode\<close>, \<open>Unmarshal\<close> for \<open>Decoder.Decode\<close> of
  one record), and the Segment client: the result of \<open>client.Track\<close> for a message and
  the result of \<open>client.Close()\<close> for the messages the client has accepted.
\<close>

record 'p env =
  Now :: int
  GenerateUUID :: "error + string"
  Marshal :: "'p Event \<Rightarrow> error + string"
  Unmarshal :: "string \<Rightarrow> error + 'p Event"
  client_Track :: "'p segment_Track \<Rightarrow> error option"
  client_Close :: "'p segment_Track list \<Rightarrow> error option"

subsection \<open>File system calls\<close>

definition os_IsNotExist :: "error option \<Rightarrow> bool" where
  "os_IsNotExist err = (err = Some ErrNotExist)"

definition os_Mkdir :: "'p world \<Rightarrow> error option \<times> 'p world" where
  "os_Mkdir w =
     (if root_dir w then (Some ErrExist, w)
      else if parent_dir w then
        (None, w\<lparr>root_dir := True, disable_file := False, id_file := None,
                  last_flush_file := None, events_link := None\<rparr>)
      else (Some ErrNotExist, w))"

definition os_Stat_disable :: "'p world \<Rightarrow> error option" where
  "os_Stat_disable w = (if root_dir w \<and> disable_file w then None else Some ErrNotExist)"

definition os_Create_disable :: "'p world \<Rightarrow> error option \<times> 'p world" where
  "os_Create_disable w =
     (if root_dir w then (None, w\<lparr>disable_file := True\<rparr>) else (Some ErrNotExist, w))"

definition os_Remove_disable :: "'p world \<Rightarrow> error option \<times> 'p world" where
  "os_Remove_disable w =
     (if root_dir w \<and> disable_file w then (None, w\<lparr>disable_file := False\<rparr>)
      else (Some ErrNotExist, w))"

definition ioutil_ReadFile_id :: "'p world \<Rightarrow> error + string" where
  "ioutil_ReadFile_id w =
     (if root_dir w then (case id_file w of None \<Rightarrow> Inl ErrNotExist | Some b \<Rightarrow> Inr b)
      else Inl ErrNotExist)"

definition ioutil_WriteFile_id :: "string \<Rightarrow> 'p world \<Rightarrow> error option \<times> 'p world" where
  "ioutil_WriteFile_id b w =
     (if root_dir w then (None, w\<lparr>id_file := Some b\<rparr>) else (Some ErrNotExist, w))"

definition ioutil_WriteFile_last_flush :: "int \<Rightarrow> 'p world \<Rightarrow> error option \<times> 'p world" where
  "ioutil_WriteFile_last_flush now w =
     (if root_dir w then (None, w\<lparr>last_flush_file := Some now\<rparr>) else (Some ErrNotExist, w))"

definition os_Stat_last_flush :: "'p world \<Rightarrow> error + int" where
  "os_Stat_last_flush w =
     (if root_dir w then (case last_flush_file w of None \<Rightarrow> Inl ErrNotExist | Some t \<Rightarrow> Inr t)
      else Inl ErrNotExist)"

text \<open>\<open>os.OpenFile(path, O_APPEND|O_CREATE|O_RDWR, 0666)\<close> on \<open>~/<dir>/events\<close>.\<close>

definition os_OpenFile_events :: "'p world \<Rightarrow> os_File option \<times> error option \<times> 'p world" where
  "os_OpenFile_events w =
     (if \<not> root_dir w then (None, Some ErrNotExist, w)
      else (case events_link w of
              Some i \<Rightarrow> (Some \<lparr>inode = i, closed = False\<rparr>, None, w)
            | None \<Rightarrow>
                (let i = next_inode w in
                 (Some \<lparr>inode = i, closed = False\<rparr>, None,
                  w\<lparr>events_link := Some i, inodes := (inodes w)(i := []),
                    next_inode := Suc i\<rparr>))))"

text \<open>\<open>os.Open\<close> on \<open>~/<dir>/events\<close>, giving the records a decoder will read from it.\<close>

definition os_Open_events :: "'p world \<Rightarrow> error + string list" where
  "os_Open_events w =
     (if root_dir w then (case events_link w of None \<Rightarrow> Inl ErrNotExist | Some i \<Rightarrow> Inr (inodes w i))
      else Inl ErrNotExist)"

definition os_Remove_events :: "'p world \<Rightarrow> error option \<times> 'p world" where
  "os_Remove_events w =
     (if root_dir w \<and> events_link w \<noteq> None then (None, w\<lparr>events_link := None\<rparr>)
      else (Some ErrNotExist, w))"

text \<open>
  \<open>(*os.File).Close\<close> and \<open>(*os.File).Write\<close>: both return \<open>ErrInvalid\<close> on a nil
  receiver and an error on a file already closed.
\<close>

definition File_Close :: "os_File option \<Rightarrow> error option \<times> os_File option" where
  "File_Close f =
     (case f of
        None \<Rightarrow> (Some ErrInvalid, None)
      | Some h \<Rightarrow> if closed h then (Some ErrClosed, Some h) else (None, Some (h\<lparr>closed := True\<rparr>)))"

definition File_Write :: "os_File option \<Rightarrow> string \<Rightarrow> 'p world \<Rightarrow> error option \<times> 'p world" where
  "File_Write f b w =
     (case f of
        None \<Rightarrow> (Some ErrInvalid, w)
      | Some h \<Rightarrow>
          if closed h then (Some ErrClosed, w)
          else (None, w\<lparr>inodes := (inodes w)(inode h := inodes w (inode h) @ [b])\<rparr>))"

text \<open>
  \<open>time.Time.Sub\<close>: the difference as a \<open>Duration\<close> (a signed 64-bit count of
  nanoseconds), saturating at the ends of its range.
\<close>

definition time_Sub :: "int \<Rightarrow> int \<Rightarrow> int" where
  "time_Sub t u =
     (let d = t - u in
      if d > 9223372036854775807 then 9223372036854775807
      else if d < - 9223372036854775808 then - 9223372036854775808
      else d)"

section \<open>The package\<close>

subsection \<open>Gate\<close>

definition Enabled :: "'p world \<Rightarrow> bool \<times> error option" where
  "Enabled w =
     (let err = os_Stat_disable w in
      if os_IsNotExist err then (True, None) else (False, err))"

definition Disable :: "'p world \<Rightarrow> error option \<times> 'p world" where
  "Disable w = os_Create_disable w"

definition Enable :: "'p world \<Rightarrow> error option \<times> 'p world" where
  "Enable w = os_Remove_disable w"

subsection \<open>Reading the log\<close>

text \<open>
  The loop of \<open>Events\<close>: \<open>io.EOF\<close> (no record left) ends it, a decoding error returns
  \<open>nil\<close> and the wrapped error, a decoded event is appended to \<open>v\<close>. How the decoder
  cuts the bytes of the file into records is not modelled: a file is the sequence of
  its records, and a corrupt one is a record on which \<open>Unmarshal\<close> fails.
\<close>

fun decode_loop :: "'p env \<Rightarrow> string list \<Rightarrow> 'p Event list \<Rightarrow> 'p Event list \<times> error option" where
  "decode_loop E [] v = (v, None)"
| "decode_loop E (r # rs) v =
     (case Unmarshal E r of
        Inl err \<Rightarrow> ([], Some (Wrap err ''decoding''))
      | Inr e \<Rightarrow> decode_loop E rs (v @ [e]))"

definition Events :: "'p env \<Rightarrow> 'p world \<Rightarrow> 'p Event list \<times> error option" where
  "Events E w =
     (case os_Open_events w of
        Inl err \<Rightarrow> ([], Some (Wrap err ''opening''))
      | Inr f \<Rightarrow> decode_loop E f [])"

definition Size :: "'p env \<Rightarrow> 'p world \<Rightarrow> int \<times> error option" where
  "Size E w =
     (case Events E w of
        (evs, Some err) \<Rightarrow> (0, Some (Wrap err ''reading events''))
      | (evs, None) \<Rightarrow> (int (length evs), None))"

subsection \<open>The flush marker\<close>

definition Touch :: "'p env \<Rightarrow> 'p world \<Rightarrow> error option \<times> 'p world" where
  "Touch E w = ioutil_WriteFile_last_flush (Now E) w"

definition LastFlush :: "'p world \<Rightarrow> int \<times> error option" where
  "LastFlush w =
     (case os_Stat_last_flush w of
        Inl err \<Rightarrow> (0, Some err)
      | Inr modTime \<Rightarrow> (modTime, None))"

definition LastFlushDuration :: "'p env \<Rightarrow> 'p world \<Rightarrow> int \<times> error option" where
  "LastFlushDuration E w =
     (case LastFlush w of
        (lastFlush, Some err) \<Rightarrow> (0, None)
      | (lastFlush, None) \<Rightarrow> (time_Sub (Now E) lastFlush, None))"

subsection \<open>Initialisation\<close>

definition initDir :: "'p world \<Rightarrow> 'p world" where
  "initDir w = snd (os_Mkdir w)"

definition initID :: "'p env \<Rightarrow> Analytics \<Rightarrow> 'p world \<Rightarrow> Analytics \<times> 'p world" where
  "initID E a w =
     (case ioutil_ReadFile_id w of
        Inr b \<Rightarrow> (a\<lparr>userID := b\<rparr>, w)
      | Inl _ \<Rightarrow>
          (case GenerateUUID E of
             Inl _ \<Rightarrow> (a, w)
           | Inr uid \<Rightarrow>
               (case ioutil_WriteFile_id uid w of
                  (Some err, w') \<Rightarrow> (a\<lparr>userID := uid\<rparr>, w')
                | (None, w') \<Rightarrow> (a\<lparr>userID := uid\<rparr>, snd (Touch E w')))))"

definition initEvents :: "Analytics \<Rightarrow> 'p world \<Rightarrow> Analytics \<times> 'p world" where
  "initEvents a w =
     (case os_OpenFile_events w of
        (f, Some err, w') \<Rightarrow> (a, w')
      | (f, None, w') \<Rightarrow> (a\<lparr>eventsFile := f, events := Some NewEncoder\<rparr>, w'))"

definition init :: "'p env \<Rightarrow> Analytics \<Rightarrow> 'p world \<Rightarrow> Analytics \<times> 'p world" where
  "init E a w =
     (case Enabled w of
        (enabled, err) \<Rightarrow>
          if err \<noteq> None \<or> \<not> enabled then (a, w)
          else (case initID E a (initDir w) of
                  (a', w') \<Rightarrow> initEvents a' w'))"

definition New :: "'p env \<Rightarrow> 'p world \<Rightarrow> Analytics \<times> 'p world" where
  "New E w = init E \<lparr>userID = [], eventsFile = None, events = None\<rparr> w"

subsection \<open>Track, Close, Flush, ConditionalFlush\<close>

text \<open>
  \<open>(*json.Encoder).Encode\<close> on the encoder \<open>enc\<close> of \<open>a\<close>. An encoder whose earlier write
  failed returns that error at once. Otherwise a value that does not marshal is
  returned as an error before anything is written; otherwise the record is written
  with one \<open>Write\<close> to the file the encoder was made on, and an error of that write is
  returned and kept in the encoder.
\<close>

definition Encode ::
  "'p env \<Rightarrow> json_Encoder \<Rightarrow> Analytics \<Rightarrow> 'p Event \<Rightarrow> 'p world
     \<Rightarrow> error option \<times> Analytics \<times> 'p world" where
  "Encode E enc a e w =
     (case enc_err enc of
        Some err \<Rightarrow> (Some err, a, w)
      | None \<Rightarrow>
          (case Marshal E e of
             Inl err \<Rightarrow> (Some err, a, w)
           | Inr b \<Rightarrow>
               (case File_Write (eventsFile a) b w of
                  (Some err, w') \<Rightarrow> (Some err, a\<lparr>events := Some (enc\<lparr>enc_err := Some err\<rparr>)\<rparr>, w')
                | (None, w') \<Rightarrow> (None, a, w'))))"

definition Track ::
  "'p env \<Rightarrow> Analytics \<Rightarrow> string \<Rightarrow> 'p \<Rightarrow> 'p world \<Rightarrow> error option \<times> Analytics \<times> 'p world" where
  "Track E a name props w =
     (case events a of
        None \<Rightarrow> (None, a, w)
      | Some enc \<Rightarrow> Encode E enc a \<lparr>Event = name, Properties = props\<rparr> w)"

definition Close :: "Analytics \<Rightarrow> error option \<times> Analytics" where
  "Close a = (case File_Close (eventsFile a) of (err, f) \<Rightarrow> (err, a\<lparr>eventsFile := f\<rparr>))"

text \<open>
  The loop of \<open>Flush\<close> over the events read: each is passed to \<open>client.Track\<close>, whose
  result the source discards. \<open>q\<close> is the queue of the client: the messages it accepted.
\<close>

fun track_loop ::
  "'p env \<Rightarrow> Analytics \<Rightarrow> 'p Event list \<Rightarrow> 'p segment_Track list \<Rightarrow> 'p world
     \<Rightarrow> 'p segment_Track list \<times> 'p world" where
  "track_loop E a [] q w = (q, w)"
| "track_loop E a (event # rest) q w =
     (let m = \<lparr>Track_Event = Event event, Track_UserId = userID a,
                Track_Properties = Properties event\<rparr>
      in track_loop E a rest
           (case client_Track E m of None \<Rightarrow> q @ [m] | Some _ \<Rightarrow> q)
           (w\<lparr>submitted := submitted w @ [m]\<rparr>))"

definition Flush :: "'p env \<Rightarrow> Analytics \<Rightarrow> 'p world \<Rightarrow> error option \<times> Analytics \<times> 'p world" where
  "Flush E a w =
     (case Close a of
        (Some err, a') \<Rightarrow> (Some (Wrap err ''closing''), a', w)
      | (None, a') \<Rightarrow>
          (case Events E w of
             (evs, Some err) \<Rightarrow> (Some (Wrap err ''reading events''), a', w)
           | (evs, None) \<Rightarrow>
               (case track_loop E a' evs [] w of
                  (q, w1) \<Rightarrow>
                    (case client_Close E q of
                       Some err \<Rightarrow> (Some (Wrap err ''closing client''), a', w1)
                     | None \<Rightarrow>
                         (case Touch E w1 of
                            (Some err, w2) \<Rightarrow> (Some (Wrap err ''touching''), a', w2)
                          | (None, w2) \<Rightarrow>
                              (case os_Remove_events w2 of
                                 (err, w3) \<Rightarrow> (err, a', w3)))))))"

definition ConditionalFlush ::
  "'p env \<Rightarrow> Analytics \<Rightarrow> int \<Rightarrow> int \<Rightarrow> 'p world \<Rightarrow> error option \<times> Analytics \<times> 'p world" where
  "ConditionalFlush E a aboveSize aboveDuration w =
     (case LastFlushDuration E w of
        (age, Some err) \<Rightarrow> (Some err, a, w)
      | (age, None) \<Rightarrow>
          (case Size E w of
             (sz, Some err) \<Rightarrow> (Some err, a, w)
           | (sz, None) \<Rightarrow>
               if sz \<ge> aboveSize then Flush E a w
               else if age \<ge> aboveDuration then Flush E a w
               else (case Close a of (err, a') \<Rightarrow> (err, a', w))))"

section \<open>Callers and sample inputs\<close>

text \<open>
  A caller's sequence of \<open>Track\<close> calls on one tracker: the results, the tracker and the
  world after.
\<close>

fun Track_all ::
  "'p env \<Rightarrow> Analytics \<Rightarrow> (string \<times> 'p) list \<Rightarrow> 'p world
     \<Rightarrow> error option list \<times> Analytics \<times> 'p world" where
  "Track_all E a [] w = ([], a, w)"
| "Track_all E a ((name, props) # rest) w =
     (case Track E a name props w of
        (r, a', w') \<Rightarrow> (case Track_all E a' rest w' of (rs, a'', w'') \<Rightarrow> (r # rs, a'', w'')))"

definition event_of :: "string \<times> 'p \<Rightarrow> 'p Event" where
  "event_of np = \<lparr>Event = fst np, Properties = snd np\<rparr>"

text \<open>The message \<open>Flush\<close> builds for one event, for the tracker with identifier \<open>uid\<close>.\<close>

definition message_of :: "string \<Rightarrow> 'p Event \<Rightarrow> 'p segment_Track" where
  "message_of uid e = \<lparr>Track_Event = Event e, Track_UserId = uid, Track_Properties = Properties e\<rparr>"

text \<open>
  What the codec makes of an event: the event its record decodes to, if the event
  marshals and the record unmarshals. The codec round-trips an event it returns
  unchanged.
\<close>

definition through_codec :: "'p env \<Rightarrow> 'p Event \<Rightarrow> 'p Event option" where
  "through_codec E e =
     (case Marshal E e of
        Inl _ \<Rightarrow> None
      | Inr b \<Rightarrow> (case Unmarshal E b of Inl _ \<Rightarrow> None | Inr e' \<Rightarrow> Some e'))"

definition round_trips :: "'p env \<Rightarrow> 'p Event \<Rightarrow> bool" where
  "round_trips E e = (through_codec E e = Some e)"

text \<open>
  For a sequence of events passed to \<open>Track\<close>: the result a marshalling gives each call,
  and the records of those that marshal, in call order.
\<close>

definition marshal_results :: "'p env \<Rightarrow> (string \<times> 'p) list \<Rightarrow> error option list" where
  "marshal_results E nps =
     map (\<lambda>np. case Marshal E (event_of np) of Inl err \<Rightarrow> Some err | Inr b \<Rightarrow> None) nps"

definition marshalled :: "'p env \<Rightarrow> (string \<times> 'p) list \<Rightarrow> string list" where
  "marshalled E nps =
     concat (map (\<lambda>np. case Marshal E (event_of np) of Inl err \<Rightarrow> [] | Inr b \<Rightarrow> [b]) nps)"

text \<open>
  A small codec for the sample inputs, with a one-bit property: the record is the bit
  followed by the name. It stands in for \<open>encoding/json\<close> in closed examples only.
\<close>

definition sample_Marshal :: "bool Event \<Rightarrow> error + string" where
  "sample_Marshal e = Inr ((if Properties e then CHR ''1'' else CHR ''0'') # Event e)"

fun sample_Unmarshal :: "string \<Rightarrow> error + bool Event" where
  "sample_Unmarshal [] = Inl (ErrOther ''unexpected end of JSON input'')"
| "sample_Unmarshal (c # name) =
     (if c = CHR ''1'' then Inr \<lparr>Event = name, Properties = True\<rparr>
      else if c = CHR ''0'' then Inr \<lparr>Event = name, Properties = False\<rparr>
      else Inl (ErrOther ''invalid character''))"

definition sample_env :: "bool env" where
  "sample_env =
     \<lparr>Now = 5000, GenerateUUID = Inr ''uuid-2'', Marshal = sample_Marshal,
      Unmarshal = sample_Unmarshal, client_Track = (\<lambda>m. None), client_Close = (\<lambda>q. None)\<rparr>"

text \<open>
  A state directory of an earlier run: identifier \<open>uuid-1\<close>, one buffered event
  \<open>("a", false)\<close>, marker touched at time 4000, not disabled.
\<close>

definition sample_world :: "bool world" where
  "sample_world =
     \<lparr>parent_dir = True, root_dir = True, disable_file = False, id_file = Some ''uuid-1'',
      last_flush_file = Some 4000, events_link = Some 0,
      inodes = (\<lambda>i. [])(0 := [''0a'']), next_inode = 1, submitted = []\<rparr>"

text \<open>
  The same directory after the user opted out, with the marker file missing, and with
  the log file missing.
\<close>

definition opted_out_world :: "bool world" where
  "opted_out_world = sample_world\<lparr>disable_file := True\<rparr>"

definition unmarked_world :: "bool world" where
  "unmarked_world = sample_world\<lparr>last_flush_file := None\<rparr>"

definition flushed_world :: "bool world" where
  "flushed_world = sample_world\<lparr>events_link := None\<rparr>"

text \<open>
  The tracker that \<open>New\<close> returns on \<open>sample_world\<close>, the same after \<open>Close\<close>, the same after
  a \<open>Track\<close> that followed the \<open>Close\<close>, and the tracker \<open>New\<close> returns when tracking is
  disabled.
\<close>

definition sample_tracker :: Analytics where
  "sample_tracker =
     \<lparr>userID = ''uuid-1'', eventsFile = Some \<lparr>inode = 0, closed = False\<rparr>,
      events = Some NewEncoder\<rparr>"

definition closed_tracker :: Analytics where
  "closed_tracker =
     \<lparr>userID = ''uuid-1'', eventsFile = Some \<lparr>inode = 0, closed = True\<rparr>,
      events = Some NewEncoder\<rparr>"

definition failed_tracker :: Analytics where
  "failed_tracker =
     \<lparr>userID = ''uuid-1'', eventsFile = Some \<lparr>inode = 0, closed = True\<rparr>,
      events = Some \<lparr>enc_err = Some ErrClosed\<rparr>\<rparr>"

definition inert_tracker :: Analytics where
  "inert_tracker = \<lparr>userID = [], eventsFile = None, events = None\<rparr>"

text \<open>
  Two remote clients that fail: one whose \<open>Close\<close> reports a transport failure, one whose
  \<open>Track\<close> rejects every message while its \<open>Close\<close> succeeds.
\<close>

definition failing_env :: "bool env" where
  "failing_env = sample_env\<lparr>client_Close := (\<lambda>q. Some (ErrOther ''transport''))\<rparr>"

definition rejecting_env :: "bool env" where
  "rejecting_env = sample_env\<lparr>client_Track := (\<lambda>m. Some (ErrOther ''rejected''))\<rparr>"

text \<open>
  A second codec, over three property values: the integer 1, the floating-point
  number 1 and a function. As \<open>encoding/json\<close> does with a property map of type
  \<open>map[string]interface{}\<close>, it refuses to marshal the function, writes both numbers as
  \<open>1\<close>, and decodes \<open>1\<close> as the floating-point number. The record is \<open>1\<close> followed by the
  name. With it, a directory with an empty log and the tracker \<open>New\<close> returns there.
\<close>

datatype go_value = Go_int_1 | Go_float64_1 | Go_func

definition typed_Marshal :: "go_value Event \<Rightarrow> error + string" where
  "typed_Marshal e =
     (case Properties e of
        Go_func \<Rightarrow> Inl (ErrOther ''json: unsupported type'')
      | Go_int_1 \<Rightarrow> Inr (CHR ''1'' # Event e)
      | Go_float64_1 \<Rightarrow> Inr (CHR ''1'' # Event e))"

fun typed_Unmarshal :: "string \<Rightarrow> error + go_value Event" where
  "typed_Unmarshal [] = Inl (ErrOther ''unexpected end of JSON input'')"
| "typed_Unmarshal (c # name) =
     (if c = CHR ''1'' then Inr \<lparr>Event = name, Properties = Go_float64_1\<rparr>
      else Inl (ErrOther ''invalid character''))"

definition typed_env :: "go_value env" where
  "typed_env =
     \<lparr>Now = 5000, GenerateUUID = Inr ''uuid-2'', Marshal = typed_Marshal,
      Unmarshal = typed_Unmarshal, client_Track = (\<lambda>m. None), client_Close = (\<lambda>q. None)\<rparr>"

definition typed_world :: "go_value world" where
  "typed_world =
     \<lparr>parent_dir = True, root_dir = True, disable_file = False, id_file = Some ''uuid-1'',
      last_flush_file = Some 4000, events_link = Some 0,
      inodes = (\<lambda>i. []), next_inode = 1, submitted = []\<rparr>"

section \<open>Auxiliary facts\<close>

lemmas os_defs = os_IsNotExist_def os_Mkdir_def os_Stat_disable_def os_Create_disable_def
  os_Remove_disable_def ioutil_ReadFile_id_def ioutil_WriteFile_id_def
  ioutil_WriteFile_last_flush_def os_Stat_last_flush_def os_OpenFile_events_def
  os_Open_events_def os_Remove_events_def File_Close_def File_Write_def time_Sub_def

lemmas pkg_defs = Enabled_def Events_def Size_def Touch_def LastFlush_def LastFlushDuration_def
  initDir_def initID_def initEvents_def init_def New_def Encode_def Track_def Close_def
  Flush_def ConditionalFlush_def Let_def

lemmas sample_defs = sample_env_def sample_world_def sample_Marshal_def event_of_def
  message_of_def round_trips_def through_codec_def marshal_results_def marshalled_def
  opted_out_world_def unmarked_world_def flushed_world_def
  sample_tracker_def closed_tracker_def failed_tracker_def inert_tracker_def
  failing_env_def rejecting_env_def typed_env_def typed_world_def typed_Marshal_def

lemma New_sample: "New sample_env sample_world = (sample_tracker, sample_world)"
  by (simp add: pkg_defs os_defs sample_defs)

lemma New_opted_out: "New sample_env opted_out_world = (inert_tracker, opted_out_world)"
  by (simp add: pkg_defs os_defs sample_defs)

lemma New_typed: "New typed_env typed_world = (sample_tracker, typed_world)"
  by (simp add: pkg_defs os_defs sample_defs)

lemma Close_sample: "Close sample_tracker = (None, closed_tracker)"
  by (simp add: Close_def File_Close_def sample_defs)

subsection \<open>The decoding loop and appends\<close>

lemma decode_loop_error_nil:
  "decode_loop E rs v = (vs, Some err) \<Longrightarrow> vs = []"
  by (induction rs arbitrary: v) (auto split: sum.splits)

lemma decode_loop_acc:
  "decode_loop E rs v =
     (case decode_loop E rs [] of
        (new, None) \<Rightarrow> (v @ new, None)
      | (new, Some err) \<Rightarrow> ([], Some err))"
proof (induction rs arbitrary: v)
  case Nil
  show ?case by simp
next
  case (Cons r rs)
  show ?case
  proof (cases "Unmarshal E r")
    case (Inl err)
    then show ?thesis by simp
  next
    case (Inr e)
    show ?thesis
      using Cons.IH [of "v @ [e]"] Cons.IH [of "[e]"] Inr
      by (simp split: prod.splits option.splits)
  qed
qed

lemma decode_loop_append:
  "decode_loop E (xs @ ys) v =
     (case decode_loop E xs v of
        (old, None) \<Rightarrow> decode_loop E ys old
      | (old, Some err) \<Rightarrow> ([], Some err))"
  by (induction xs arbitrary: v) (auto split: sum.splits)

lemma decode_loop_cong:
  "Unmarshal E2 = Unmarshal E \<Longrightarrow> decode_loop E2 rs v = decode_loop E rs v"
  by (induction rs arbitrary: v) (auto split: sum.splits)

lemma Events_cong:
  "Unmarshal E2 = Unmarshal E \<Longrightarrow> Events E2 w = Events E w"
  using decode_loop_cong [of E2 E] by (simp add: Events_def split: sum.splits)

lemma Events_submitted:
  "Events E (w\<lparr>submitted := s\<rparr>) = Events E w"
  by (simp add: Events_def os_Open_events_def split: option.splits)

text \<open>Reading a log to which records have been appended.\<close>

lemma decode_loop_after:
  "decode_loop E (rs @ app) [] =
     (case decode_loop E rs [] of
        (old, Some err) \<Rightarrow> ([], Some err)
      | (old, None) \<Rightarrow>
          (case decode_loop E app [] of
             (new, None) \<Rightarrow> (old @ new, None)
           | (new, Some err) \<Rightarrow> ([], Some err)))"
proof -
  obtain old r where o: "decode_loop E rs [] = (old, r)"
    by (cases "decode_loop E rs []")
  show ?thesis
  proof (cases r)
    case None
    have "decode_loop E (rs @ app) [] = decode_loop E app old"
      using o None by (simp add: decode_loop_append)
    also have "\<dots> = (case decode_loop E app [] of
             (new, None) \<Rightarrow> (old @ new, None)
           | (new, Some err) \<Rightarrow> ([], Some err))"
      by (rule decode_loop_acc)
    finally show ?thesis
      using o None by simp
  next
    case (Some err)
    then show ?thesis
      using o by (simp add: decode_loop_append)
  qed
qed

lemma Events_after_writes:
  assumes "root_dir w" and "events_link w = Some i"
  shows "Events E (w\<lparr>inodes := (inodes w)(i := inodes w i @ app)\<rparr>) =
           (case Events E w of
              (old, Some err) \<Rightarrow> ([], Some err)
            | (old, None) \<Rightarrow>
                (case decode_loop E app [] of
                   (new, None) \<Rightarrow> (old @ new, None)
                 | (new, Some err) \<Rightarrow> ([], Some err)))"
proof -
  have "Events E (w\<lparr>inodes := (inodes w)(i := inodes w i @ app)\<rparr>)
          = decode_loop E (inodes w i @ app) []"
    using assms by (simp add: Events_def os_Open_events_def)
  moreover have "Events E w = decode_loop E (inodes w i) []"
    using assms by (simp add: Events_def os_Open_events_def)
  ultimately show ?thesis
    by (simp only: decode_loop_after)
qed

lemma Events_after_write:
  assumes "root_dir w" and "events_link w = Some i" and "Events E w = (old, None)"
    and "Unmarshal E b = Inr e"
  shows "Events E (w\<lparr>inodes := (inodes w)(i := inodes w i @ [b])\<rparr>) = (old @ [e], None)"
  using assms by (simp add: Events_after_writes)

text \<open>Decoding the records a sequence of \<open>Track\<close> calls writes.\<close>

lemma decode_marshalled:
  assumes "\<forall>np \<in> set nps. through_codec E (event_of np) \<noteq> None"
  shows "\<exists>new. decode_loop E (marshalled E nps) v = (v @ new, None)
               \<and> map Some new = map (\<lambda>np. through_codec E (event_of np)) nps"
  using assms
proof (induction nps arbitrary: v)
  case Nil
  show ?case by (simp add: marshalled_def)
next
  case (Cons np nps)
  from Cons.prems obtain e where e: "through_codec E (event_of np) = Some e"
    by auto
  then obtain b where b: "Marshal E (event_of np) = Inr b" "Unmarshal E b = Inr e"
    by (auto simp add: through_codec_def split: sum.splits)
  obtain new where new: "decode_loop E (marshalled E nps) (v @ [e]) = ((v @ [e]) @ new, None)"
      "map Some new = map (\<lambda>np. through_codec E (event_of np)) nps"
    using Cons.IH [of "v @ [e]"] Cons.prems by auto
  have "decode_loop E (marshalled E (np # nps)) v = (v @ (e # new), None)"
    using b new(1) by (simp add: marshalled_def)
  moreover have "map Some (e # new) = map (\<lambda>np. through_codec E (event_of np)) (np # nps)"
    using e new(2) by simp
  ultimately show ?case by blast
qed

lemma decode_marshalled_round_trips:
  assumes "\<forall>np \<in> set nps. round_trips E (event_of np)"
  shows "decode_loop E (marshalled E nps) v = (v @ map event_of nps, None)"
proof -
  have t: "\<forall>np \<in> set nps. through_codec E (event_of np) = Some (event_of np)"
    using assms by (simp add: round_trips_def)
  then obtain new where new: "decode_loop E (marshalled E nps) v = (v @ new, None)"
      "map Some new = map (\<lambda>np. through_codec E (event_of np)) nps"
    using decode_marshalled [of nps E v] by auto
  have "map Some new = map Some (map event_of nps)"
    using new(2) t by simp
  then have "new = map event_of nps"
    using inj_map_eq_map [OF inj_Some] by blast
  then show ?thesis
    using new(1) by simp
qed

subsection \<open>Track on an open log\<close>

lemma Track_open:
  assumes "events a = Some enc" and "enc_err enc = None"
    and "eventsFile a = Some f" and "\<not> closed f"
  shows "Track E a name props w =
           (case Marshal E \<lparr>Event = name, Properties = props\<rparr> of
              Inl err \<Rightarrow> (Some err, a, w)
            | Inr b \<Rightarrow>
                (None, a, w\<lparr>inodes := (inodes w)(inode f := inodes w (inode f) @ [b])\<rparr>))"
  using assms by (simp add: Track_def Encode_def File_Write_def split: sum.splits)

lemma marshalled_Cons:
  "marshalled E ((name, props) # nps) =
     (case Marshal E \<lparr>Event = name, Properties = props\<rparr> of Inl err \<Rightarrow> [] | Inr b \<Rightarrow> [b])
       @ marshalled E nps"
  by (simp add: marshalled_def event_of_def)

lemma marshal_results_Cons:
  "marshal_results E ((name, props) # nps) =
     (case Marshal E \<lparr>Event = name, Properties = props\<rparr> of Inl err \<Rightarrow> Some err | Inr b \<Rightarrow> None)
       # marshal_results E nps"
  by (simp add: marshal_results_def event_of_def)

lemma append_twice:
  "w\<lparr>inodes := (inodes w)(i := inodes w i @ xs)\<rparr>
     \<lparr>inodes := (inodes (w\<lparr>inodes := (inodes w)(i := inodes w i @ xs)\<rparr>))
        (i := inodes (w\<lparr>inodes := (inodes w)(i := inodes w i @ xs)\<rparr>) i @ ys)\<rparr>
   = w\<lparr>inodes := (inodes w)(i := inodes w i @ xs @ ys)\<rparr>"
  by simp

lemma Track_all_open:
  assumes "events a = Some enc" and "enc_err enc = None"
    and "eventsFile a = Some f" and "\<not> closed f"
  shows "Track_all E a nps w =
           (marshal_results E nps, a,
            w\<lparr>inodes := (inodes w)(inode f := inodes w (inode f) @ marshalled E nps)\<rparr>)"
proof (induction nps arbitrary: w)
  case Nil
  show ?case by (simp add: marshal_results_def marshalled_def)
next
  case (Cons np nps)
  obtain name props where np: "np = (name, props)" by (cases np)
  show ?case
  proof (cases "Marshal E \<lparr>Event = name, Properties = props\<rparr>")
    case (Inl err)
    then have t: "Track E a name props w = (Some err, a, w)"
      using Track_open [OF assms, of E name props w] by simp
    show ?thesis
      unfolding np marshalled_Cons marshal_results_Cons
      using Inl Cons.IH [of w] by (simp add: t)
  next
    case (Inr b)
    let ?w1 = "w\<lparr>inodes := (inodes w)(inode f := inodes w (inode f) @ [b])\<rparr>"
    have t: "Track E a name props w = (None, a, ?w1)"
      using Inr Track_open [OF assms, of E name props w] by simp
    have ih: "Track_all E a nps ?w1 =
           (marshal_results E nps, a,
            w\<lparr>inodes := (inodes w)(inode f := inodes w (inode f) @ [b] @ marshalled E nps)\<rparr>)"
      using Cons.IH [of ?w1] by (simp only: append_twice)
    show ?thesis
      unfolding np marshalled_Cons marshal_results_Cons
      by (simp only: Track_all.simps t ih prod.case Inr sum.case)
  qed
qed

subsection \<open>What construction establishes\<close>

lemma initID_handle:
  "events (fst (initID E a w)) = events a \<and> eventsFile (fst (initID E a w)) = eventsFile a"
  by (simp add: initID_def split: sum.splits prod.splits option.splits)

lemma initID_keeps_log:
  "root_dir (snd (initID E a w)) = root_dir w
   \<and> events_link (snd (initID E a w)) = events_link w
   \<and> inodes (snd (initID E a w)) = inodes w
   \<and> submitted (snd (initID E a w)) = submitted w"
  by (simp add: initID_def ioutil_ReadFile_id_def ioutil_WriteFile_id_def Touch_def
      ioutil_WriteFile_last_flush_def split: sum.splits option.splits)

lemma initEvents_keeps:
  "userID (fst (initEvents a w)) = userID a
   \<and> root_dir (snd (initEvents a w)) = root_dir w
   \<and> id_file (snd (initEvents a w)) = id_file w
   \<and> disable_file (snd (initEvents a w)) = disable_file w"
  by (simp add: initEvents_def os_OpenFile_events_def Let_def split: option.splits)

lemma New_open:
  assumes "New E0 w0 = (a, w)" and "events a \<noteq> None"
  shows "\<exists>f. events a = Some NewEncoder \<and> eventsFile a = Some f \<and> \<not> closed f
              \<and> root_dir w \<and> events_link w = Some (inode f)"
proof -
  let ?a0 = "\<lparr>userID = [], eventsFile = None, events = None\<rparr>"
  obtain a1 w1 where i: "initID E0 ?a0 (initDir w0) = (a1, w1)"
    by (cases "initID E0 ?a0 (initDir w0)")
  have a1: "events a1 = None"
    using initID_handle [of E0 ?a0 "initDir w0"] i by simp
  show ?thesis
    using assms a1 i
    by (auto simp add: New_def init_def initEvents_def os_OpenFile_events_def Let_def
        split: prod.splits if_splits option.splits)
qed

lemma New_with_id:
  assumes "root_dir w" and "id_file w = Some s"
  shows "New E w =
           (if disable_file w then (\<lparr>userID = [], eventsFile = None, events = None\<rparr>, w)
            else initEvents \<lparr>userID = s, eventsFile = None, events = None\<rparr> w)"
  using assms
  by (simp add: New_def init_def Enabled_def os_Stat_disable_def os_IsNotExist_def initDir_def
      os_Mkdir_def initID_def ioutil_ReadFile_id_def)

lemma New_keeps_log:
  assumes "Events E w = (evs, None)"
  shows "Events E (snd (New E1 w)) = (evs, None) \<and> submitted (snd (New E1 w)) = submitted w"
proof -
  let ?a0 = "\<lparr>userID = [], eventsFile = None, events = None\<rparr>"
  obtain i where w: "root_dir w" "events_link w = Some i"
    using assms by (auto simp add: Events_def os_Open_events_def split: if_splits option.splits)
  have d: "initDir w = w"
    using w by (simp add: initDir_def os_Mkdir_def)
  obtain a1 w1 where i: "initID E1 ?a0 w = (a1, w1)"
    by (cases "initID E1 ?a0 w")
  have k: "root_dir w1 \<and> events_link w1 = Some i \<and> inodes w1 = inodes w
           \<and> submitted w1 = submitted w"
    using initID_keeps_log [of E1 ?a0 w] i w by simp
  have o: "snd (initEvents a1 w1) = w1"
    using k by (simp add: initEvents_def os_OpenFile_events_def)
  have n: "snd (New E1 w) = w \<or> snd (New E1 w) = w1"
    using d i o by (auto simp add: New_def init_def split: prod.splits)
  have e: "Events E w1 = Events E w"
    using k w by (simp add: Events_def os_Open_events_def)
  show ?thesis
    using n e k assms by auto
qed

text \<open>
  A sequence of \<open>Track\<close> calls on a tracker that \<open>New\<close> returned with its log open: the
  results, the tracker, and what \<open>Events\<close> reads afterwards.
\<close>

lemma Track_all_after_New:
  assumes "New E0 w0 = (a, w)" and "events a \<noteq> None"
  shows "fst (Track_all E a nps w) = marshal_results E nps"
    and "fst (snd (Track_all E a nps w)) = a"
    and "submitted (snd (snd (Track_all E a nps w))) = submitted w"
    and "Events E (snd (snd (Track_all E a nps w))) =
           (case Events E w of
              (old, Some err) \<Rightarrow> ([], Some err)
            | (old, None) \<Rightarrow>
                (case decode_loop E (marshalled E nps) [] of
                   (new, None) \<Rightarrow> (old @ new, None)
                 | (new, Some err) \<Rightarrow> ([], Some err)))"
proof -
  obtain f where f: "events a = Some NewEncoder" "eventsFile a = Some f" "\<not> closed f"
      "root_dir w" "events_link w = Some (inode f)"
    using New_open [OF assms] by blast
  have n: "enc_err NewEncoder = None"
    by (simp add: NewEncoder_def)
  have t: "Track_all E a nps w =
           (marshal_results E nps, a,
            w\<lparr>inodes := (inodes w)(inode f := inodes w (inode f) @ marshalled E nps)\<rparr>)"
    using f(1) n f(2) f(3) by (rule Track_all_open)
  show "fst (Track_all E a nps w) = marshal_results E nps"
    and "fst (snd (Track_all E a nps w)) = a"
    and "submitted (snd (snd (Track_all E a nps w))) = submitted w"
    by (simp_all add: t)
  show "Events E (snd (snd (Track_all E a nps w))) =
           (case Events E w of
              (old, Some err) \<Rightarrow> ([], Some err)
            | (old, None) \<Rightarrow>
                (case decode_loop E (marshalled E nps) [] of
                   (new, None) \<Rightarrow> (old @ new, None)
                 | (new, Some err) \<Rightarrow> ([], Some err)))"
    using Events_after_writes [OF f(4) f(5), of E "marshalled E nps"] by (simp add: t)
qed

subsection \<open>What a flush submits\<close>

lemma track_loop_eq:
  "track_loop E a evs q w =
     (q @ filter (\<lambda>m. client_Track E m = None) (map (message_of (userID a)) evs),
      w\<lparr>submitted := submitted w @ map (message_of (userID a)) evs\<rparr>)"
  by (induction evs arbitrary: q w) (auto simp add: message_of_def Let_def split: option.splits)

lemma Flush_submitted:
  assumes "Close a = (None, a1)"
  shows "submitted (snd (snd (Flush E a w)))
           = submitted w @ map (message_of (userID a)) (fst (Events E w))"
proof -
  have u: "userID a1 = userID a"
    using assms by (auto simp add: Close_def split: prod.splits)
  obtain evs r where e: "Events E w = (evs, r)"
    by (cases "Events E w")
  show ?thesis
  proof (cases r)
    case None
    then show ?thesis
      using assms u e
      by (simp add: Flush_def track_loop_eq Touch_def ioutil_WriteFile_last_flush_def
          os_Remove_events_def split: option.splits prod.splits)
  next
    case (Some err)
    then have "evs = []"
      using e
      by (auto simp add: Events_def dest: decode_loop_error_nil split: sum.splits)
    then show ?thesis
      using assms e Some by (simp add: Flush_def)
  qed
qed

section \<open>The flush transaction\<close>

text \<open>
  Claim C1, amended. When the finalization of the client (\<open>client.Close()\<close>) fails in a
  flush transaction that got that far (the handle closed without error and the log was
  read), \<open>Flush\<close> returns that failure wrapped as \<open>closing client\<close>, and the world
  differs from the one before only in the record of what was submitted: the log file and
  the flush marker are untouched. For a tracker that is constructed afterwards on that
  directory and opens the log, with the same decoder: each \<open>Track\<close> call returns what
  marshalling its event gives; \<open>Events\<close> then reads the same events as the failed flush
  did, followed by the events decoded from the records appended since (the tracked
  events themselves when the codec round-trips them), or fails if an appended record
  does not decode; and its \<open>Flush\<close> submits one message for every event so read.
\<close>

theorem Flush_client_Close_failure:
  assumes "Close a = (None, a1)"
    and "Events E w = (evs, None)"
    and "client_Close E (filter (\<lambda>m. client_Track E m = None)
           (map (message_of (userID a)) evs)) = Some err"
  shows "Flush E a w = (Some (Wrap err ''closing client''), a1,
                         w\<lparr>submitted := submitted w @ map (message_of (userID a)) evs\<rparr>)
       \<and> (New E1 (w\<lparr>submitted := submitted w @ map (message_of (userID a)) evs\<rparr>) = (b, w1)
            \<and> events b \<noteq> None \<and> Unmarshal E2 = Unmarshal E \<longrightarrow>
            fst (Track_all E2 b nps w1) = marshal_results E2 nps
          \<and> Events E2 (snd (snd (Track_all E2 b nps w1))) =
              (case decode_loop E2 (marshalled E2 nps) [] of
                 (new, None) \<Rightarrow> (evs @ new, None)
               | (new, Some err) \<Rightarrow> ([], Some err))
          \<and> ((\<forall>np \<in> set nps. round_trips E2 (event_of np)) \<longrightarrow>
               Events E2 (snd (snd (Track_all E2 b nps w1))) = (evs @ map event_of nps, None))
          \<and> submitted (snd (snd (Flush E2 (fst (snd (Track_all E2 b nps w1)))
                                    (snd (snd (Track_all E2 b nps w1))))))
              = submitted w1
                @ map (message_of (userID b)) (fst (Events E2 (snd (snd (Track_all E2 b nps w1))))))"
proof (intro conjI impI)
  let ?w' = "w\<lparr>submitted := submitted w @ map (message_of (userID a)) evs\<rparr>"
  let ?w3 = "snd (snd (Track_all E2 b nps w1))"
  have u: "userID a1 = userID a"
    using assms(1) by (auto simp add: Close_def split: prod.splits)
  show "Flush E a w = (Some (Wrap err ''closing client''), a1, ?w')"
    using assms u by (simp add: Flush_def track_loop_eq)
  assume h: "New E1 ?w' = (b, w1) \<and> events b \<noteq> None \<and> Unmarshal E2 = Unmarshal E"
  then have n: "New E1 ?w' = (b, w1)" and o: "events b \<noteq> None"
    and c: "Unmarshal E2 = Unmarshal E"
    by simp_all
  have "Events E2 ?w' = (evs, None)"
    using assms(2) by (simp add: Events_cong [OF c] Events_submitted)
  then have e1: "Events E2 w1 = (evs, None)"
    using New_keeps_log [of E2 ?w' evs E1] n by simp
  note t = Track_all_after_New [OF n o, of E2 nps]
  show "fst (Track_all E2 b nps w1) = marshal_results E2 nps"
    by (rule t(1))
  show e3: "Events E2 ?w3 =
              (case decode_loop E2 (marshalled E2 nps) [] of
                 (new, None) \<Rightarrow> (evs @ new, None)
               | (new, Some err) \<Rightarrow> ([], Some err))"
    using t(4) e1 by simp
  obtain h where h: "eventsFile b = Some h" "\<not> closed h"
    using New_open [OF n o] by blast
  have cl: "Close b = (None, b\<lparr>eventsFile := Some (h\<lparr>closed := True\<rparr>)\<rparr>)"
    using h by (simp add: Close_def File_Close_def)
  have "submitted (snd (snd (Flush E2 b ?w3)))
          = submitted ?w3 @ map (message_of (userID b)) (fst (Events E2 ?w3))"
    using cl by (rule Flush_submitted)
  then show "submitted (snd (snd (Flush E2 (fst (snd (Track_all E2 b nps w1))) ?w3)))
          = submitted w1 @ map (message_of (userID b)) (fst (Events E2 ?w3))"
    by (simp add: t(2) t(3))
  assume "\<forall>np \<in> set nps. round_trips E2 (event_of np)"
  then have "decode_loop E2 (marshalled E2 nps) [] = ([] @ map event_of nps, None)"
    by (rule decode_marshalled_round_trips)
  then show "Events E2 ?w3 = (evs @ map event_of nps, None)"
    using e3 by simp
qed

text \<open>
  On the sample directory with a client whose \<open>Close\<close> fails: the flush fails, the next
  tracker tracks \<open>("b", true)\<close> and its flush submits the old event again and the new one.
\<close>

theorem Flush_client_Close_failure_witness:
  "Flush failing_env sample_tracker sample_world
     = (Some (Wrap (ErrOther ''transport'') ''closing client''), closed_tracker,
        sample_world\<lparr>submitted := [message_of ''uuid-1'' \<lparr>Event = ''a'', Properties = False\<rparr>]\<rparr>)
   \<and> New sample_env
        (sample_world\<lparr>submitted := [message_of ''uuid-1'' \<lparr>Event = ''a'', Properties = False\<rparr>]\<rparr>)
       = (sample_tracker,
          sample_world\<lparr>submitted := [message_of ''uuid-1'' \<lparr>Event = ''a'', Properties = False\<rparr>]\<rparr>)
   \<and> fst (Track_all sample_env sample_tracker [(''b'', True)]
           (sample_world\<lparr>submitted :=
              [message_of ''uuid-1'' \<lparr>Event = ''a'', Properties = False\<rparr>]\<rparr>)) = [None]
   \<and> Events sample_env
        (snd (snd (Track_all sample_env sample_tracker [(''b'', True)]
           (sample_world\<lparr>submitted :=
              [message_of ''uuid-1'' \<lparr>Event = ''a'', Properties = False\<rparr>]\<rparr>))))
       = ([\<lparr>Event = ''a'', Properties = False\<rparr>, \<lparr>Event = ''b'', Properties = True\<rparr>], None)
   \<and> submitted (snd (snd (Flush sample_env
        (fst (snd (Track_all sample_env sample_tracker [(''b'', True)]
           (sample_world\<lparr>submitted :=
              [message_of ''uuid-1'' \<lparr>Event = ''a'', Properties = False\<rparr>]\<rparr>))))
        (snd (snd (Track_all sample_env sample_tracker [(''b'', True)]
           (sample_world\<lparr>submitted :=
              [message_of ''uuid-1'' \<lparr>Event = ''a'', Properties = False\<rparr>]\<rparr>)))))))
       = [message_of ''uuid-1'' \<lparr>Event = ''a'', Properties = False\<rparr>,
          message_of ''uuid-1'' \<lparr>Event = ''a'', Properties = False\<rparr>,
          message_of ''uuid-1'' \<lparr>Event = ''b'', Properties = True\<rparr>]"
proof -
  let ?m = "message_of ''uuid-1'' \<lparr>Event = ''a'', Properties = False\<rparr>"
  let ?w' = "sample_world\<lparr>submitted := [?m]\<rparr>"
  let ?t = "Track_all sample_env sample_tracker [(''b'', True)] ?w'"
  have c: "Close sample_tracker = (None, closed_tracker)"
    by (rule Close_sample)
  have e: "Events failing_env sample_world = ([\<lparr>Event = ''a'', Properties = False\<rparr>], None)"
    by (simp add: pkg_defs os_defs sample_defs)
  have k: "client_Close failing_env (filter (\<lambda>m. client_Track failing_env m = None)
             (map (message_of (userID sample_tracker)) [\<lparr>Event = ''a'', Properties = False\<rparr>]))
           = Some (ErrOther ''transport'')"
    by (simp add: sample_defs)
  have s: "sample_world\<lparr>submitted := submitted sample_world
             @ map (message_of (userID sample_tracker)) [\<lparr>Event = ''a'', Properties = False\<rparr>]\<rparr>
           = ?w'"
    by (simp add: sample_defs)
  have n: "New sample_env ?w' = (sample_tracker, ?w')"
    by (simp add: pkg_defs os_defs sample_defs)
  have o: "events sample_tracker \<noteq> None"
    by (simp add: sample_defs)
  have u: "Unmarshal sample_env = Unmarshal failing_env"
    by (simp add: sample_defs)
  have r: "\<forall>np \<in> set [(''b'', True)]. round_trips sample_env (event_of np)"
    by (simp add: sample_defs)
  have p: "marshal_results sample_env [(''b'', True)] = [None]"
    by (simp add: sample_defs)
  note th = Flush_client_Close_failure [OF c e k, where ?E1.0 = sample_env and b = sample_tracker
      and ?w1.0 = ?w' and ?E2.0 = sample_env and nps = "[(''b'', True)]", unfolded s]
  have f: "Flush failing_env sample_tracker sample_world
             = (Some (Wrap (ErrOther ''transport'') ''closing client''), closed_tracker, ?w')"
    using th by blast
  have t1: "fst ?t = marshal_results sample_env [(''b'', True)]"
    using th n o u by blast
  have t2: "Events sample_env (snd (snd ?t))
              = ([\<lparr>Event = ''a'', Properties = False\<rparr>] @ map event_of [(''b'', True)], None)"
    using th n o u r by blast
  have t3: "submitted (snd (snd (Flush sample_env (fst (snd ?t)) (snd (snd ?t)))))
              = submitted ?w' @ map (message_of (userID sample_tracker))
                  (fst (Events sample_env (snd (snd ?t))))"
    using th n o u by blast
  have t2': "Events sample_env (snd (snd ?t))
       = ([\<lparr>Event = ''a'', Properties = False\<rparr>, \<lparr>Event = ''b'', Properties = True\<rparr>], None)"
    using t2 by (simp add: event_of_def)
  have t3': "submitted (snd (snd (Flush sample_env (fst (snd ?t)) (snd (snd ?t)))))
       = [?m, ?m, message_of ''uuid-1'' \<lparr>Event = ''b'', Properties = True\<rparr>]"
    unfolding t3 t2' by (simp add: sample_defs)
  have t1': "fst ?t = [None]"
    using t1 p by simp
  show ?thesis
    using f n t1' t2' t3' by blast
qed

text \<open>
  The claim as stated fails in three ways. A failure of the submission of an event (the
  result of \<open>client.Track\<close>) is not returned: with a client that rejects every message
  and then closes without error, \<open>Flush\<close> returns \<open>nil\<close>, touches the marker and deletes
  the log. After a flush that failed at \<open>client.Close()\<close>, a second \<open>Flush\<close> on the same
  tracker stops at its close step, the handle being closed already: it reads and
  submits nothing. And when the directory has been disabled before the failed flush,
  the tracker constructed afterwards has no log handle: its \<open>Flush\<close> stops at the close
  step too.
\<close>

theorem Flush_failure_counterexample:
  "client_Track rejecting_env (message_of ''uuid-1'' \<lparr>Event = ''a'', Properties = False\<rparr>)
     = Some (ErrOther ''rejected'')
   \<and> Flush rejecting_env sample_tracker sample_world
       = (None, closed_tracker,
          sample_world\<lparr>submitted := [message_of ''uuid-1'' \<lparr>Event = ''a'', Properties = False\<rparr>],
                       last_flush_file := Some 5000, events_link := None\<rparr>)
   \<and> Flush failing_env sample_tracker sample_world
       = (Some (Wrap (ErrOther ''transport'') ''closing client''), closed_tracker,
          sample_world\<lparr>submitted := [message_of ''uuid-1'' \<lparr>Event = ''a'', Properties = False\<rparr>]\<rparr>)
   \<and> Flush failing_env closed_tracker
        (sample_world\<lparr>submitted := [message_of ''uuid-1'' \<lparr>Event = ''a'', Properties = False\<rparr>]\<rparr>)
       = (Some (Wrap ErrClosed ''closing''), closed_tracker,
          sample_world\<lparr>submitted := [message_of ''uuid-1'' \<lparr>Event = ''a'', Properties = False\<rparr>]\<rparr>)
   \<and> Flush failing_env sample_tracker opted_out_world
       = (Some (Wrap (ErrOther ''transport'') ''closing client''), closed_tracker,
          opted_out_world\<lparr>submitted := [message_of ''uuid-1'' \<lparr>Event = ''a'', Properties = False\<rparr>]\<rparr>)
   \<and> New sample_env
        (opted_out_world\<lparr>submitted := [message_of ''uuid-1'' \<lparr>Event = ''a'', Properties = False\<rparr>]\<rparr>)
       = (inert_tracker,
          opted_out_world\<lparr>submitted := [message_of ''uuid-1'' \<lparr>Event = ''a'', Properties = False\<rparr>]\<rparr>)
   \<and> Flush sample_env inert_tracker
        (opted_out_world\<lparr>submitted := [message_of ''uuid-1'' \<lparr>Event = ''a'', Properties = False\<rparr>]\<rparr>)
       = (Some (Wrap ErrInvalid ''closing''), inert_tracker,
          opted_out_world\<lparr>submitted := [message_of ''uuid-1'' \<lparr>Event = ''a'', Properties = False\<rparr>]\<rparr>)"
  by (simp add: pkg_defs os_defs sample_defs)

text \<open>
  Claim C2, amended. After a \<open>Flush\<close> that returned \<open>nil\<close> the log file is gone, so
  \<open>Size\<close> returns 0 and \<open>Events\<close> returns the empty sequence, each next to a non-nil
  error: the \<open>opening\<close> error of the missing file.
\<close>

theorem Flush_then_Size_Events:
  assumes "Flush E a w = (None, a', w')"
  shows "events_link w' = None
       \<and> Size E' w' = (0, Some (Wrap (Wrap ErrNotExist ''opening'') ''reading events''))
       \<and> Events E' w' = ([], Some (Wrap ErrNotExist ''opening''))"
proof -
  have l: "events_link w' = None"
    using assms
    by (auto simp add: Flush_def os_Remove_events_def split: prod.splits option.splits if_splits)
  have e: "Events E' w' = ([], Some (Wrap ErrNotExist ''opening''))"
    using l by (simp add: Events_def os_Open_events_def)
  show ?thesis
    using l e by (simp add: Size_def)
qed

theorem Flush_then_Size_Events_witness:
  "Flush sample_env sample_tracker sample_world
     = (None, closed_tracker,
        sample_world\<lparr>submitted := [message_of ''uuid-1'' \<lparr>Event = ''a'', Properties = False\<rparr>],
                     last_flush_file := Some 5000, events_link := None\<rparr>)
   \<and> Size sample_env
         (sample_world\<lparr>submitted := [message_of ''uuid-1'' \<lparr>Event = ''a'', Properties = False\<rparr>],
                       last_flush_file := Some 5000, events_link := None\<rparr>)
       = (0, Some (Wrap (Wrap ErrNotExist ''opening'') ''reading events''))"
proof -
  have f: "Flush sample_env sample_tracker sample_world
     = (None, closed_tracker,
        sample_world\<lparr>submitted := [message_of ''uuid-1'' \<lparr>Event = ''a'', Properties = False\<rparr>],
                     last_flush_file := Some 5000, events_link := None\<rparr>)"
    by (simp add: pkg_defs os_defs sample_defs)
  show ?thesis
    using f Flush_then_Size_Events [OF f, of sample_env] by simp
qed

text \<open>
  The claim as stated asks for no error: after the successful flush of the sample
  directory both calls return a non-nil error.
\<close>

theorem Flush_then_Size_counterexample:
  "fst (Flush sample_env sample_tracker sample_world) = None
   \<and> snd (Size sample_env (snd (snd (Flush sample_env sample_tracker sample_world))))
       = Some (Wrap (Wrap ErrNotExist ''opening'') ''reading events'')
   \<and> snd (Events sample_env (snd (snd (Flush sample_env sample_tracker sample_world))))
       = Some (Wrap ErrNotExist ''opening'')"
  by (simp add: pkg_defs os_defs sample_defs)

section \<open>The flush decision\<close>

text \<open>
  Claim C3. Whenever the age and the size are computed without error,
  \<open>ConditionalFlush\<close> does what \<open>Flush\<close> does if the size has reached \<open>aboveSize\<close>, whatever
  the age; otherwise what \<open>Flush\<close> does if the age has reached \<open>aboveDuration\<close>; and otherwise
  it only closes the handle: it returns the result of \<open>Close\<close>, and the world, the buffered
  events included, is the one it started from.
\<close>

theorem ConditionalFlush_decision:
  assumes "LastFlushDuration E w = (age, None)" and "Size E w = (sz, None)"
  shows "(aboveSize \<le> sz \<longrightarrow> ConditionalFlush E a aboveSize aboveDuration w = Flush E a w)
       \<and> (sz < aboveSize \<and> aboveDuration \<le> age \<longrightarrow>
            ConditionalFlush E a aboveSize aboveDuration w = Flush E a w)
       \<and> (sz < aboveSize \<and> age < aboveDuration \<longrightarrow>
            ConditionalFlush E a aboveSize aboveDuration w = (fst (Close a), snd (Close a), w))"
  using assms by (simp add: ConditionalFlush_def split: prod.splits)

text \<open>
  On the sample directory (one event, age 1000): thresholds \<open>(1, 2000)\<close> flush on size
  although the age is below its threshold, and the log file is gone afterwards;
  \<open>(2, 1000)\<close> flush on age; \<open>(2, 2000)\<close> only close.
\<close>

theorem ConditionalFlush_decision_witness:
  "LastFlushDuration sample_env sample_world = (1000, None)
   \<and> Size sample_env sample_world = (1, None)
   \<and> ConditionalFlush sample_env sample_tracker 1 2000 sample_world
       = Flush sample_env sample_tracker sample_world
   \<and> events_link (snd (snd (Flush sample_env sample_tracker sample_world))) = None
   \<and> ConditionalFlush sample_env sample_tracker 2 1000 sample_world
       = Flush sample_env sample_tracker sample_world
   \<and> ConditionalFlush sample_env sample_tracker 2 2000 sample_world
       = (None, closed_tracker, sample_world)"
proof -
  have age: "LastFlushDuration sample_env sample_world = (1000, None)"
    by (simp add: pkg_defs os_defs sample_defs)
  have sz: "Size sample_env sample_world = (1, None)"
    by (simp add: pkg_defs os_defs sample_defs)
  have f: "events_link (snd (snd (Flush sample_env sample_tracker sample_world))) = None"
    by (simp add: pkg_defs os_defs sample_defs)
  show ?thesis
    using age sz f Close_sample
      ConditionalFlush_decision [OF age sz, of 1 sample_tracker 2000]
      ConditionalFlush_decision [OF age sz, of 2 sample_tracker 1000]
      ConditionalFlush_decision [OF age sz, of 2 sample_tracker 2000]
    by simp
qed

text \<open>
  Claim C4, amended. When computing the size fails, \<open>ConditionalFlush\<close> returns that
  failure and does nothing else: the tracker and the world are unchanged. Computing the
  age never reports a failure: \<open>LastFlushDuration\<close> always returns a nil error.
\<close>

theorem ConditionalFlush_Size_failure:
  "snd (LastFlushDuration E w) = None
   \<and> (Size E w = (sz, Some err) \<longrightarrow>
        ConditionalFlush E a aboveSize aboveDuration w = (Some err, a, w))"
  by (simp add: ConditionalFlush_def LastFlushDuration_def split: prod.splits option.splits)

theorem ConditionalFlush_Size_failure_witness:
  "Size sample_env flushed_world
     = (0, Some (Wrap (Wrap ErrNotExist ''opening'') ''reading events''))
   \<and> ConditionalFlush sample_env sample_tracker 0 0 flushed_world
       = (Some (Wrap (Wrap ErrNotExist ''opening'') ''reading events''), sample_tracker,
          flushed_world)"
proof -
  have s: "Size sample_env flushed_world
             = (0, Some (Wrap (Wrap ErrNotExist ''opening'') ''reading events''))"
    by (simp add: pkg_defs os_defs sample_defs)
  show ?thesis
    using s ConditionalFlush_Size_failure [where E = sample_env and w = flushed_world
        and a = sample_tracker and aboveSize = 0 and aboveDuration = 0]
    by simp
qed

text \<open>
  The claim as stated fails for the age: with the marker file missing, reading the
  time of the last flush fails (\<open>LastFlush\<close> returns the error), yet \<open>ConditionalFlush\<close>
  returns \<open>nil\<close> and acts: here it flushes, submitting the event and deleting the log.
\<close>

theorem ConditionalFlush_age_failure_counterexample:
  "LastFlush unmarked_world = (0, Some ErrNotExist)
   \<and> fst (ConditionalFlush sample_env sample_tracker 1 2000 unmarked_world) = None
   \<and> events_link (snd (snd (ConditionalFlush sample_env sample_tracker 1 2000 unmarked_world)))
       = None
   \<and> submitted (snd (snd (ConditionalFlush sample_env sample_tracker 1 2000 unmarked_world)))
       = [\<lparr>Track_Event = ''a'', Track_UserId = ''uuid-1'', Track_Properties = False\<rparr>]"
  by (simp add: pkg_defs os_defs sample_defs)

text \<open>
  Claim C5, amended. When the marker file is absent, \<open>LastFlush\<close> returns the epoch next
  to the error of the failed \<open>Stat\<close>, and \<open>LastFlushDuration\<close> returns the age 0 with no
  error. With a positive \<open>aboveDuration\<close> the age therefore never causes a flush:
  \<open>ConditionalFlush\<close> flushes if the size has reached \<open>aboveSize\<close> and only closes otherwise.
\<close>

theorem absent_marker_age:
  assumes "last_flush_file w = None"
  shows "LastFlush w = (0, Some ErrNotExist)
       \<and> LastFlushDuration E w = (0, None)
       \<and> (0 < aboveDuration \<and> Size E w = (sz, None) \<longrightarrow>
            ConditionalFlush E a aboveSize aboveDuration w
              = (if aboveSize \<le> sz then Flush E a w else (fst (Close a), snd (Close a), w)))"
  using assms
  by (simp add: ConditionalFlush_def LastFlushDuration_def LastFlush_def os_Stat_last_flush_def
      split: prod.splits)

theorem absent_marker_age_witness:
  "last_flush_file unmarked_world = None
   \<and> LastFlush unmarked_world = (0, Some ErrNotExist)
   \<and> LastFlushDuration sample_env unmarked_world = (0, None)
   \<and> ConditionalFlush sample_env sample_tracker 2 1 unmarked_world
       = (None, closed_tracker, unmarked_world)
   \<and> ConditionalFlush sample_env sample_tracker 1 1 unmarked_world
       = Flush sample_env sample_tracker unmarked_world"
proof -
  have h: "last_flush_file unmarked_world = None"
    by (simp add: sample_defs)
  have s: "Size sample_env unmarked_world = (1, None)"
    by (simp add: pkg_defs os_defs sample_defs)
  show ?thesis
    using h s Close_sample
      absent_marker_age [OF h, where E = sample_env and a = sample_tracker and sz = 1
        and aboveSize = 2 and aboveDuration = 1]
      absent_marker_age [OF h, where E = sample_env and a = sample_tracker and sz = 1
        and aboveSize = 1 and aboveDuration = 1]
    by simp
qed

text \<open>
  The claim as stated fails: with the marker file missing, one buffered event and
  thresholds \<open>(2, 1)\<close>, the age is 0, below the positive threshold of one nanosecond, and
  \<open>ConditionalFlush\<close> only closes the handle; it does not flush.
\<close>

theorem absent_marker_counterexample:
  "last_flush_file unmarked_world = None
   \<and> LastFlushDuration sample_env unmarked_world = (0, None)
   \<and> Size sample_env unmarked_world = (1, None)
   \<and> ConditionalFlush sample_env sample_tracker 2 1 unmarked_world
       = (None, closed_tracker, unmarked_world)
   \<and> ConditionalFlush sample_env sample_tracker 2 1 unmarked_world
       \<noteq> Flush sample_env sample_tracker unmarked_world"
  by (simp add: pkg_defs os_defs sample_defs)

section \<open>Tracking\<close>

text \<open>
  Claim C6, amended. For a tracker that \<open>New\<close> returned with its log open and a sequence
  of \<open>k\<close> \<open>Track\<close> calls with no flush or close in between: each call returns what
  marshalling its event gives (\<open>nil\<close>, or the marshalling error), and \<open>Events\<close> afterwards
  decodes the records that were in the log when the tracker was constructed followed,
  in call order, by the records of the events that marshalled. So when the earlier log
  decodes and every event marshals to a record that decodes, every call succeeds and
  \<open>Events\<close> returns the events already buffered followed by exactly \<open>k\<close> events in call
  order, each the event the codec decodes from the record of the tracked one; and when
  the codec round-trips the tracked events, these are the tracked events themselves,
  names and properties as given.
\<close>

theorem Track_then_Events:
  assumes "New E0 w0 = (a, w)" and "events a \<noteq> None"
  shows "fst (Track_all E a nps w) = marshal_results E nps
       \<and> Events E (snd (snd (Track_all E a nps w))) =
           (case Events E w of
              (old, Some err) \<Rightarrow> ([], Some err)
            | (old, None) \<Rightarrow>
                (case decode_loop E (marshalled E nps) [] of
                   (new, None) \<Rightarrow> (old @ new, None)
                 | (new, Some err) \<Rightarrow> ([], Some err)))
       \<and> (Events E w = (old, None)
            \<and> (\<forall>np \<in> set nps. through_codec E (event_of np) \<noteq> None) \<longrightarrow>
            fst (Track_all E a nps w) = map (\<lambda>np. None) nps
          \<and> snd (Events E (snd (snd (Track_all E a nps w)))) = None
          \<and> map Some (fst (Events E (snd (snd (Track_all E a nps w)))))
              = map Some old @ map (\<lambda>np. through_codec E (event_of np)) nps)
       \<and> (Events E w = (old, None) \<and> (\<forall>np \<in> set nps. round_trips E (event_of np)) \<longrightarrow>
            Events E (snd (snd (Track_all E a nps w))) = (old @ map event_of nps, None))"
proof (intro conjI impI)
  let ?w' = "snd (snd (Track_all E a nps w))"
  note t = Track_all_after_New [OF assms, of E nps]
  show r: "fst (Track_all E a nps w) = marshal_results E nps"
    by (rule t(1))
  show e: "Events E ?w' =
           (case Events E w of
              (old, Some err) \<Rightarrow> ([], Some err)
            | (old, None) \<Rightarrow>
                (case decode_loop E (marshalled E nps) [] of
                   (new, None) \<Rightarrow> (old @ new, None)
                 | (new, Some err) \<Rightarrow> ([], Some err)))"
    by (rule t(4))
  {
    assume h: "Events E w = (old, None)
            \<and> (\<forall>np \<in> set nps. through_codec E (event_of np) \<noteq> None)"
    then obtain new where new: "decode_loop E (marshalled E nps) [] = ([] @ new, None)"
        "map Some new = map (\<lambda>np. through_codec E (event_of np)) nps"
      using decode_marshalled [of nps E "[]"] by blast
    have e': "Events E ?w' = (old @ new, None)"
      using e h new(1) by simp
    have "marshal_results E nps = map (\<lambda>np. None) nps"
      unfolding marshal_results_def
    proof (rule map_cong [OF refl])
      fix np assume "np \<in> set nps"
      then have "through_codec E (event_of np) \<noteq> None"
        using h by simp
      then show "(case Marshal E (event_of np) of Inl err \<Rightarrow> Some err | Inr b \<Rightarrow> None) = None"
        by (cases "Marshal E (event_of np)") (simp_all add: through_codec_def)
    qed
    then show "fst (Track_all E a nps w) = map (\<lambda>np. None) nps"
      using r by simp
    show "snd (Events E ?w') = None"
      using e' by simp
    show "map Some (fst (Events E ?w'))
              = map Some old @ map (\<lambda>np. through_codec E (event_of np)) nps"
      using e' new(2) by simp
  }
  assume h: "Events E w = (old, None) \<and> (\<forall>np \<in> set nps. round_trips E (event_of np))"
  then have "decode_loop E (marshalled E nps) [] = ([] @ map event_of nps, None)"
    by (intro decode_marshalled_round_trips) simp
  then show "Events E ?w' = (old @ map event_of nps, None)"
    using e h by simp
qed

theorem Track_then_Events_witness:
  "New sample_env sample_world = (sample_tracker, sample_world)
   \<and> events sample_tracker \<noteq> None
   \<and> Events sample_env sample_world = ([\<lparr>Event = ''a'', Properties = False\<rparr>], None)
   \<and> round_trips sample_env (event_of (''b'', True))
   \<and> round_trips sample_env (event_of (''c'', False))
   \<and> fst (Track_all sample_env sample_tracker [(''b'', True), (''c'', False)] sample_world)
       = [None, None]
   \<and> Events sample_env
        (snd (snd (Track_all sample_env sample_tracker [(''b'', True), (''c'', False)]
                     sample_world)))
       = ([\<lparr>Event = ''a'', Properties = False\<rparr>, \<lparr>Event = ''b'', Properties = True\<rparr>,
           \<lparr>Event = ''c'', Properties = False\<rparr>], None)"
proof -
  let ?t = "Track_all sample_env sample_tracker [(''b'', True), (''c'', False)] sample_world"
  have e: "events sample_tracker \<noteq> None"
    by (simp add: sample_defs)
  have old: "Events sample_env sample_world = ([\<lparr>Event = ''a'', Properties = False\<rparr>], None)"
    by (simp add: pkg_defs os_defs sample_defs)
  have rb: "round_trips sample_env (event_of (''b'', True))"
    and rc: "round_trips sample_env (event_of (''c'', False))"
    by (simp_all add: sample_defs)
  have r: "\<forall>np \<in> set [(''b'', True), (''c'', False)]. round_trips sample_env (event_of np)"
    using rb rc by simp
  have p: "marshal_results sample_env [(''b'', True), (''c'', False)] = [None, None]"
    by (simp add: sample_defs)
  note th = Track_then_Events [OF New_sample e, where E = sample_env
      and nps = "[(''b'', True), (''c'', False)]"
      and old = "[\<lparr>Event = ''a'', Properties = False\<rparr>]"]
  have t1: "fst ?t = marshal_results sample_env [(''b'', True), (''c'', False)]"
    using th by blast
  have t2: "Events sample_env (snd (snd ?t))
              = ([\<lparr>Event = ''a'', Properties = False\<rparr>]
                   @ map event_of [(''b'', True), (''c'', False)], None)"
    using th old r by blast
  have t1': "fst ?t = [None, None]"
    using t1 p by simp
  have t2': "Events sample_env (snd (snd ?t))
       = ([\<lparr>Event = ''a'', Properties = False\<rparr>, \<lparr>Event = ''b'', Properties = True\<rparr>,
           \<lparr>Event = ''c'', Properties = False\<rparr>], None)"
    using t2 by (simp add: event_of_def)
  show ?thesis
    using New_sample e old rb rc t1' t2' by blast
qed

text \<open>
  The claim as stated fails in three ways. On a directory that already buffers an
  event, one event is tracked and \<open>Events\<close> returns two, the buffered one first. With
  the second codec on an empty log: the event \<open>("x", 1)\<close> with the integer 1 comes back
  with the floating-point 1, not the property it was tracked with; and for the event
  \<open>("f", function)\<close>, which does not marshal, \<open>Track\<close> returns the error and \<open>Events\<close>
  returns no event.
\<close>

theorem Track_then_Events_counterexample:
  "New sample_env sample_world = (sample_tracker, sample_world)
   \<and> events sample_tracker \<noteq> None
   \<and> Track_all sample_env sample_tracker [(''b'', True)] sample_world
       = ([None], sample_tracker,
          sample_world\<lparr>inodes := (inodes sample_world)(0 := [''0a'', ''1b''])\<rparr>)
   \<and> Events sample_env (sample_world\<lparr>inodes := (inodes sample_world)(0 := [''0a'', ''1b''])\<rparr>)
       = ([\<lparr>Event = ''a'', Properties = False\<rparr>, \<lparr>Event = ''b'', Properties = True\<rparr>], None)
   \<and> Events sample_env (sample_world\<lparr>inodes := (inodes sample_world)(0 := [''0a'', ''1b''])\<rparr>)
       \<noteq> ([\<lparr>Event = ''b'', Properties = True\<rparr>], None)
   \<and> New typed_env typed_world = (sample_tracker, typed_world)
   \<and> Events typed_env typed_world = ([], None)
   \<and> Track_all typed_env sample_tracker [(''x'', Go_int_1)] typed_world
       = ([None], sample_tracker, typed_world\<lparr>inodes := (inodes typed_world)(0 := [''1x''])\<rparr>)
   \<and> Events typed_env (typed_world\<lparr>inodes := (inodes typed_world)(0 := [''1x''])\<rparr>)
       = ([\<lparr>Event = ''x'', Properties = Go_float64_1\<rparr>], None)
   \<and> Events typed_env (typed_world\<lparr>inodes := (inodes typed_world)(0 := [''1x''])\<rparr>)
       \<noteq> ([\<lparr>Event = ''x'', Properties = Go_int_1\<rparr>], None)
   \<and> Track_all typed_env sample_tracker [(''f'', Go_func)] typed_world
       = ([Some (ErrOther ''json: unsupported type'')], sample_tracker, typed_world)"
  by (simp add: pkg_defs os_defs sample_defs NewEncoder_def)

text \<open>
  Claim C7, amended. \<open>Track\<close> returns \<open>nil\<close> and leaves the tracker and the world as they
  are when the encoder was never created (disabled or failed initialisation). When the
  encoder exists and no earlier write through it has failed, the event marshals and the
  handle is open, \<open>Track\<close> returns \<open>nil\<close> and appends exactly one record, the marshalled
  event with the given name and properties, to the file of the handle; if that file is
  the log of the directory and the record decodes, \<open>Events\<close> then returns one more
  event, the decoded one. In every other state \<open>Track\<close> returns an error and appends
  nothing: the error of an earlier failed write if there was one; else the marshalling
  error if the event does not marshal; else the error of the write to the closed (or
  nil) file, which the encoder keeps.
\<close>

theorem Track_cases:
  "(events a = None \<longrightarrow> Track E a name props w = (None, a, w))
   \<and> (events a = Some enc \<and> enc_err enc = Some e0 \<longrightarrow>
        Track E a name props w = (Some e0, a, w))
   \<and> (events a = Some enc \<and> enc_err enc = None
        \<and> Marshal E \<lparr>Event = name, Properties = props\<rparr> = Inl err \<longrightarrow>
        Track E a name props w = (Some err, a, w))
   \<and> (events a = Some enc \<and> enc_err enc = None
        \<and> Marshal E \<lparr>Event = name, Properties = props\<rparr> = Inr b
        \<and> eventsFile a = Some f \<and> \<not> closed f \<longrightarrow>
        Track E a name props w
          = (None, a, w\<lparr>inodes := (inodes w)(inode f := inodes w (inode f) @ [b])\<rparr>)
        \<and> (root_dir w \<and> events_link w = Some (inode f) \<and> Events E w = (old, None)
             \<and> Unmarshal E b = Inr e \<longrightarrow>
             Events E (snd (snd (Track E a name props w))) = (old @ [e], None)))
   \<and> (events a = Some enc \<and> enc_err enc = None
        \<and> Marshal E \<lparr>Event = name, Properties = props\<rparr> = Inr b
        \<and> eventsFile a = Some f \<and> closed f \<longrightarrow>
        Track E a name props w
          = (Some ErrClosed, a\<lparr>events := Some (enc\<lparr>enc_err := Some ErrClosed\<rparr>)\<rparr>, w))
   \<and> (events a = Some enc \<and> enc_err enc = None
        \<and> Marshal E \<lparr>Event = name, Properties = props\<rparr> = Inr b
        \<and> eventsFile a = None \<longrightarrow>
        Track E a name props w
          = (Some ErrInvalid, a\<lparr>events := Some (enc\<lparr>enc_err := Some ErrInvalid\<rparr>)\<rparr>, w))"
proof (intro conjI impI)
  assume "events a = None"
  then show "Track E a name props w = (None, a, w)"
    by (simp add: Track_def)
next
  assume "events a = Some enc \<and> enc_err enc = Some e0"
  then show "Track E a name props w = (Some e0, a, w)"
    by (simp add: Track_def Encode_def)
next
  assume "events a = Some enc \<and> enc_err enc = None
        \<and> Marshal E \<lparr>Event = name, Properties = props\<rparr> = Inl err"
  then show "Track E a name props w = (Some err, a, w)"
    by (simp add: Track_def Encode_def)
next
  assume h: "events a = Some enc \<and> enc_err enc = None
        \<and> Marshal E \<lparr>Event = name, Properties = props\<rparr> = Inr b
        \<and> eventsFile a = Some f \<and> \<not> closed f"
  then show t: "Track E a name props w
          = (None, a, w\<lparr>inodes := (inodes w)(inode f := inodes w (inode f) @ [b])\<rparr>)"
    by (simp add: Track_def Encode_def File_Write_def)
  assume "root_dir w \<and> events_link w = Some (inode f) \<and> Events E w = (old, None)
             \<and> Unmarshal E b = Inr e"
  then show "Events E (snd (snd (Track E a name props w))) = (old @ [e], None)"
    by (simp add: t Events_after_write)
next
  assume "events a = Some enc \<and> enc_err enc = None
        \<and> Marshal E \<lparr>Event = name, Properties = props\<rparr> = Inr b
        \<and> eventsFile a = Some f \<and> closed f"
  then show "Track E a name props w
          = (Some ErrClosed, a\<lparr>events := Some (enc\<lparr>enc_err := Some ErrClosed\<rparr>)\<rparr>, w)"
    by (simp add: Track_def Encode_def File_Write_def)
next
  assume "events a = Some enc \<and> enc_err enc = None
        \<and> Marshal E \<lparr>Event = name, Properties = props\<rparr> = Inr b
        \<and> eventsFile a = None"
  then show "Track E a name props w
          = (Some ErrInvalid, a\<lparr>events := Some (enc\<lparr>enc_err := Some ErrInvalid\<rparr>)\<rparr>, w)"
    by (simp add: Track_def Encode_def File_Write_def)
qed

text \<open>
  On the samples: the inert tracker; the open tracker, whose record is read back; the
  closed tracker, whose encoder keeps the error of the write; and that tracker again,
  which returns the kept error.
\<close>

theorem Track_cases_witness:
  "Track sample_env inert_tracker ''b'' True opted_out_world
     = (None, inert_tracker, opted_out_world)
   \<and> Track sample_env sample_tracker ''b'' True sample_world
       = (None, sample_tracker,
          sample_world\<lparr>inodes := (inodes sample_world)(0 := [''0a'', ''1b''])\<rparr>)
   \<and> Events sample_env (snd (snd (Track sample_env sample_tracker ''b'' True sample_world)))
       = ([\<lparr>Event = ''a'', Properties = False\<rparr>, \<lparr>Event = ''b'', Properties = True\<rparr>], None)
   \<and> Track sample_env closed_tracker ''b'' True sample_world
       = (Some ErrClosed, failed_tracker, sample_world)
   \<and> Track sample_env failed_tracker ''b'' True sample_world
       = (Some ErrClosed, failed_tracker, sample_world)"
proof -
  have n: "events inert_tracker = None"
    by (simp add: sample_defs)
  have o: "events sample_tracker = Some NewEncoder \<and> enc_err NewEncoder = None
           \<and> Marshal sample_env \<lparr>Event = ''b'', Properties = True\<rparr> = Inr ''1b''
           \<and> eventsFile sample_tracker = Some \<lparr>inode = 0, closed = False\<rparr>
           \<and> \<not> closed \<lparr>inode = 0, closed = False\<rparr>"
    by (simp add: sample_defs NewEncoder_def)
  have r: "root_dir sample_world
           \<and> events_link sample_world = Some (inode \<lparr>inode = 0, closed = False\<rparr>)
           \<and> Events sample_env sample_world = ([\<lparr>Event = ''a'', Properties = False\<rparr>], None)
           \<and> Unmarshal sample_env ''1b'' = Inr \<lparr>Event = ''b'', Properties = True\<rparr>"
    by (simp add: pkg_defs os_defs sample_defs)
  have c: "events closed_tracker = Some NewEncoder \<and> enc_err NewEncoder = None
           \<and> Marshal sample_env \<lparr>Event = ''b'', Properties = True\<rparr> = Inr ''1b''
           \<and> eventsFile closed_tracker = Some \<lparr>inode = 0, closed = True\<rparr>
           \<and> closed \<lparr>inode = 0, closed = True\<rparr>"
    by (simp add: sample_defs NewEncoder_def)
  have k: "events failed_tracker = Some \<lparr>enc_err = Some ErrClosed\<rparr>
           \<and> enc_err \<lparr>enc_err = Some ErrClosed\<rparr> = Some ErrClosed"
    by (simp add: sample_defs)
  have i: "inodes sample_world 0 = [''0a'']"
    by (simp add: sample_defs)
  have j: "closed_tracker\<lparr>events := Some (NewEncoder\<lparr>enc_err := Some ErrClosed\<rparr>)\<rparr>
             = failed_tracker"
    by (simp add: sample_defs NewEncoder_def)
  note inert_case = Track_cases [where a = inert_tracker and E = sample_env and name = "''b''"
      and props = True and w = opted_out_world]
  note open_case = Track_cases [where a = sample_tracker and E = sample_env and name = "''b''"
      and props = True and w = sample_world and enc = NewEncoder
      and f = "\<lparr>inode = 0, closed = False\<rparr>"
      and b = "''1b''" and old = "[\<lparr>Event = ''a'', Properties = False\<rparr>]"
      and e = "\<lparr>Event = ''b'', Properties = True\<rparr>"]
  note closed_case = Track_cases [where a = closed_tracker and E = sample_env
      and name = "''b''" and props = True and w = sample_world and enc = NewEncoder
      and f = "\<lparr>inode = 0, closed = True\<rparr>" and b = "''1b''"]
  note kept_case = Track_cases [where a = failed_tracker and E = sample_env
      and name = "''b''" and props = True and w = sample_world
      and enc = "\<lparr>enc_err = Some ErrClosed\<rparr>" and ?e0.0 = ErrClosed]
  have t0: "Track sample_env inert_tracker ''b'' True opted_out_world
              = (None, inert_tracker, opted_out_world)"
    using n inert_case by blast
  have t1: "Track sample_env sample_tracker ''b'' True sample_world
       = (None, sample_tracker, sample_world\<lparr>inodes := (inodes sample_world)
            (inode \<lparr>inode = 0, closed = False\<rparr> :=
               inodes sample_world (inode \<lparr>inode = 0, closed = False\<rparr>) @ [''1b''])\<rparr>)"
    using o open_case by blast
  have e1: "Events sample_env (snd (snd (Track sample_env sample_tracker ''b'' True sample_world)))
       = ([\<lparr>Event = ''a'', Properties = False\<rparr>] @ [\<lparr>Event = ''b'', Properties = True\<rparr>], None)"
    using o r open_case by blast
  have t2: "Track sample_env closed_tracker ''b'' True sample_world
       = (Some ErrClosed,
          closed_tracker\<lparr>events := Some (NewEncoder\<lparr>enc_err := Some ErrClosed\<rparr>)\<rparr>, sample_world)"
    using c closed_case by blast
  have t3: "Track sample_env failed_tracker ''b'' True sample_world
       = (Some ErrClosed, failed_tracker, sample_world)"
    using k kept_case by blast
  have t1': "Track sample_env sample_tracker ''b'' True sample_world
       = (None, sample_tracker,
          sample_world\<lparr>inodes := (inodes sample_world)(0 := [''0a'', ''1b''])\<rparr>)"
    using t1 i by simp
  have e1': "Events sample_env (snd (snd (Track sample_env sample_tracker ''b'' True sample_world)))
       = ([\<lparr>Event = ''a'', Properties = False\<rparr>, \<lparr>Event = ''b'', Properties = True\<rparr>], None)"
    using e1 by simp
  have t2': "Track sample_env closed_tracker ''b'' True sample_world
       = (Some ErrClosed, failed_tracker, sample_world)"
    using t2 j by simp
  show ?thesis
    using t0 t1' e1' t2' t3 by blast
qed

text \<open>
  The claim as stated fails in two ways. Once the handle has been closed, the tracker
  \<open>Close\<close> leaves behind still has its encoder, so \<open>Track\<close> does not return early: the
  write fails, \<open>Track\<close> returns that error (it does not succeed), and no event is
  appended. And with the handle open, an event that does not marshal (here the
  function, with the second codec) makes \<open>Track\<close> return the marshalling error and
  append nothing.
\<close>

theorem Track_after_Close_counterexample:
  "Close sample_tracker = (None, closed_tracker)
   \<and> events closed_tracker = Some NewEncoder
   \<and> Track sample_env closed_tracker ''b'' True sample_world
       = (Some ErrClosed, failed_tracker, sample_world)
   \<and> New typed_env typed_world = (sample_tracker, typed_world)
   \<and> Track typed_env sample_tracker ''f'' Go_func typed_world
       = (Some (ErrOther ''json: unsupported type''), sample_tracker, typed_world)"
  by (simp add: pkg_defs os_defs sample_defs NewEncoder_def)

section \<open>Identity\<close>

text \<open>
  Claim C8. In a state directory whose identity file exists, \<open>initID\<close> takes the
  identifier from the file verbatim and changes nothing on disk (no identifier is
  generated, whatever the generator would return); \<open>New\<close> leaves the identity file as it
  is and, when tracking is not disabled, returns a tracker with that identifier; and a
  second construction on the directory the first one left yields the same identifier.
\<close>

theorem identity_stable:
  assumes "root_dir w" and "id_file w = Some s"
  shows "initID E a w = (a\<lparr>userID := s\<rparr>, w)
       \<and> id_file (snd (New E w)) = Some s
       \<and> userID (fst (New E w)) = (if disable_file w then [] else s)
       \<and> userID (fst (New E' (snd (New E w)))) = userID (fst (New E w))"
proof -
  let ?w1 = "snd (New E w)"
  have i: "initID E a w = (a\<lparr>userID := s\<rparr>, w)"
    using assms by (simp add: initID_def ioutil_ReadFile_id_def)
  have n: "New E w =
             (if disable_file w then (\<lparr>userID = [], eventsFile = None, events = None\<rparr>, w)
              else initEvents \<lparr>userID = s, eventsFile = None, events = None\<rparr> w)"
    using assms by (rule New_with_id)
  have u: "userID (fst (New E w)) = (if disable_file w then [] else s)"
    by (simp add: n initEvents_keeps)
  have k: "root_dir ?w1 \<and> id_file ?w1 = Some s \<and> disable_file ?w1 = disable_file w"
    using assms by (simp add: n initEvents_keeps)
  have n': "New E' ?w1 =
             (if disable_file ?w1 then (\<lparr>userID = [], eventsFile = None, events = None\<rparr>, ?w1)
              else initEvents \<lparr>userID = s, eventsFile = None, events = None\<rparr> ?w1)"
    using k by (intro New_with_id) simp_all
  have u': "userID (fst (New E' ?w1)) = (if disable_file w then [] else s)"
    using k by (simp add: n' initEvents_keeps)
  show ?thesis
    using i u u' k by simp
qed

theorem identity_stable_witness:
  "root_dir sample_world \<and> id_file sample_world = Some ''uuid-1''
   \<and> GenerateUUID sample_env = Inr ''uuid-2''
   \<and> userID (fst (New sample_env sample_world)) = ''uuid-1''
   \<and> id_file (snd (New sample_env sample_world)) = Some ''uuid-1''
   \<and> userID (fst (New (sample_env\<lparr>GenerateUUID := Inr ''uuid-3''\<rparr>)
                       (snd (New sample_env sample_world)))) = ''uuid-1''"
proof -
  have r: "root_dir sample_world" and i: "id_file sample_world = Some ''uuid-1''"
    and d: "\<not> disable_file sample_world" and g: "GenerateUUID sample_env = Inr ''uuid-2''"
    by (simp_all add: sample_defs)
  show ?thesis
    using r i d g
      identity_stable [OF r i, where E = sample_env
        and E' = "sample_env\<lparr>GenerateUUID := Inr ''uuid-3''\<rparr>"]
    by simp
qed

section \<open>Closing\<close>

text \<open>
  Claim C9. \<open>Close\<close> always returns: on a tracker whose handle was never opened it
  returns the error \<open>ErrInvalid\<close> of the nil file and changes nothing; on a handle
  already closed it returns the error \<open>ErrClosed\<close> and changes nothing. So a second
  \<open>Close\<close> after any \<open>Close\<close> returns an error value and leaves the tracker as the first
  one left it.
\<close>

theorem Close_safe:
  "(eventsFile a = None \<longrightarrow> Close a = (Some ErrInvalid, a))
   \<and> (\<forall>f. eventsFile a = Some f \<and> closed f \<longrightarrow> Close a = (Some ErrClosed, a))
   \<and> fst (Close (snd (Close a))) = Some (if eventsFile a = None then ErrInvalid else ErrClosed)
   \<and> snd (Close (snd (Close a))) = snd (Close a)"
  by (auto simp add: Close_def File_Close_def split: option.splits)

theorem Close_safe_witness:
  "Close inert_tracker = (Some ErrInvalid, inert_tracker)
   \<and> Close sample_tracker = (None, closed_tracker)
   \<and> Close closed_tracker = (Some ErrClosed, closed_tracker)"
proof -
  have h: "eventsFile inert_tracker = None"
    by (simp add: sample_defs)
  have k: "eventsFile closed_tracker = Some \<lparr>inode = 0, closed = True\<rparr>
           \<and> closed \<lparr>inode = 0, closed = True\<rparr>"
    by (simp add: sample_defs)
  show ?thesis
    using h k Close_sample Close_safe [of inert_tracker] Close_safe [of closed_tracker]
    by simp
qed

section \<open>A tracker without a log handle\<close>

text \<open>
  Claim C10. A tracker whose log handle was never opened (\<open>eventsFile\<close> is nil, as
  \<open>init\<close> leaves it after an opt-out, a failed gate check or a failed open) gets the
  error of the close step from \<open>Flush\<close>, wrapped as \<open>closing\<close>: not a success. The tracker
  and the world are unchanged: nothing is submitted, and the event log, the identity
  and the flush marker stay as they were.
\<close>

theorem Flush_without_handle:
  "eventsFile a = None \<Longrightarrow> Flush E a w = (Some (Wrap ErrInvalid ''closing''), a, w)"
  by (simp add: Flush_def Close_def File_Close_def)

theorem Flush_without_handle_witness:
  "New sample_env opted_out_world = (inert_tracker, opted_out_world)
   \<and> eventsFile inert_tracker = None
   \<and> Flush sample_env inert_tracker opted_out_world
       = (Some (Wrap ErrInvalid ''closing''), inert_tracker, opted_out_world)"
proof -
  have h: "eventsFile inert_tracker = None"
    by (simp add: inert_tracker_def)
  show ?thesis
    using New_opted_out h Flush_without_handle [OF h, of sample_env opted_out_world] by simp
qed

end
